theory Spec2Isabelle
  imports
    Complex_Main
    "HOL-Library.Char_ord"
    "HOL-Library.List_Lexorder"
    "HOL-Library.Product_Lexorder"
begin

section \<open>Mirror status aggregation (mirrors/utils.py)\<close>

text \<open>
  The module reads four tables of the relational store through the ORM and aggregates
  them. The embedding keeps each table as the list of its rows (in the store's row
  order), each row as a record, and each query as a list function that follows the
  query's clauses in order: the filter, the grouping, the aggregates, the ordering.

  Conventions of the embedding:
  \<^item> a \<open>datetime\<close> is a number of microseconds since the epoch and a \<open>timedelta\<close> a number
    of microseconds, both \<open>int\<close>; \<open>days\<close> and \<open>seconds\<close> are the attributes of the
    normalised Python timedelta;
  \<^item> a Python float (durations, completion percentage, score) is a \<open>real\<close>: rounding of
    floating-point arithmetic is not modelled;
  \<^item> a nullable column or attribute is an \<open>option\<close>;
  \<^item> a raised exception is the left summand of the result;
  \<^item> the current time and the vendor of the store are parameters, and each function is
    its body: the cache in front of it is not modelled.
\<close>

subsection \<open>Data model\<close>

type_synonym datetime = int
type_synonym timedelta = int

datatype py_error = TypeError | NameError | AttributeError | ZeroDivisionError | DoesNotExist

record Mirror =
  m_id :: int
  m_tier :: int
  m_active :: bool
  m_public :: bool

record MirrorProtocol =
  p_id :: int
  p_protocol :: string
  p_default :: bool

record MirrorUrl =
  u_id :: int
  u_url :: string
  u_mirror_id :: int
  u_protocol_id :: int
  u_country :: string

record MirrorLog =
  l_url_id :: int
  l_check_time :: datetime
  l_last_sync :: "datetime option"
  l_duration :: "real option"
  l_is_success :: bool
  l_error :: string

record database =
  mirrors :: "Mirror list"
  protocols :: "MirrorProtocol list"
  urls :: "MirrorUrl list"
  logs :: "MirrorLog list"

text \<open>
  Foreign keys: \<open>id\<close> is the primary key of its table, so the join of a row with the row
  its foreign key names is a lookup. A query that joins drops the rows without a
  partner, as the inner join of the store does.
\<close>

definition mirror_of :: "database \<Rightarrow> MirrorUrl \<Rightarrow> Mirror option" where
  "mirror_of db u = find (\<lambda>m. m_id m = u_mirror_id u) (mirrors db)"

definition protocol_of :: "database \<Rightarrow> MirrorUrl \<Rightarrow> MirrorProtocol option" where
  "protocol_of db u = find (\<lambda>p. p_id p = u_protocol_id u) (protocols db)"

definition url_of :: "database \<Rightarrow> MirrorLog \<Rightarrow> MirrorUrl option" where
  "url_of db l = find (\<lambda>u. u_id u = l_url_id l) (urls db)"

text \<open>Truth value of an optional integer argument, as in \<^verbatim>\<open>if mirror_id:\<close>.\<close>

definition truthy :: "int option \<Rightarrow> bool" where
  "truthy m = (case m of None \<Rightarrow> False | Some i \<Rightarrow> i \<noteq> 0)"

subsection \<open>Time\<close>

definition minutes :: "int \<Rightarrow> timedelta" where
  "minutes n = n * 60000000"

definition hours_td :: "int \<Rightarrow> timedelta" where
  "hours_td n = n * 3600000000"

definition DEFAULT_CUTOFF :: timedelta where
  "DEFAULT_CUTOFF = hours_td 24"

definition days :: "timedelta \<Rightarrow> int" where
  "days td = td div 86400000000"

definition seconds :: "timedelta \<Rightarrow> int" where
  "seconds td = (td mod 86400000000) div 1000000"

definition microseconds :: "timedelta \<Rightarrow> int" where
  "microseconds td = td mod 1000000"

definition total_microseconds :: "timedelta \<Rightarrow> int" where
  "total_microseconds td = (days td * 86400 + seconds td) * 1000000 + microseconds td"

subsection \<open>Aggregates of the store\<close>

text \<open>
  \<open>Max\<close> and \<open>Min\<close> over a column skip nulls and are null over no value; \<open>Avg\<close> and the
  population standard deviation likewise. \<open>AVG\<close> over intervals gives an interval again:
  the quotient is taken in whole microseconds.
\<close>

fun non_null :: "'a option list \<Rightarrow> 'a list" where
  "non_null [] = []"
| "non_null (None # xs) = non_null xs"
| "non_null (Some x # xs) = x # non_null xs"

definition is_not_null :: "'a option \<Rightarrow> bool" where
  "is_not_null x = (case x of None \<Rightarrow> False | Some _ \<Rightarrow> True)"

definition sql_max :: "('a::linorder) list \<Rightarrow> 'a option" where
  "sql_max xs = (if xs = [] then None else Some (Max (set xs)))"

definition sql_min :: "('a::linorder) list \<Rightarrow> 'a option" where
  "sql_min xs = (if xs = [] then None else Some (Min (set xs)))"

definition sql_avg :: "real list \<Rightarrow> real option" where
  "sql_avg xs = (if xs = [] then None else Some (sum_list xs / real (length xs)))"

definition sql_stddev :: "real list \<Rightarrow> real option" where
  "sql_stddev xs =
     (if xs = [] then None
      else let n = real (length xs); mean = sum_list xs / n
           in Some (sqrt (sum_list (map (\<lambda>x. (x - mean)\<^sup>2) xs) / n)))"

definition sql_avg_interval :: "timedelta list \<Rightarrow> timedelta option" where
  "sql_avg_interval xs = (if xs = [] then None else Some (sum_list xs div int (length xs)))"

text \<open>Grouping: one group per key, in the order of the key's first row.\<close>

definition group_by :: "('a \<Rightarrow> 'k) \<Rightarrow> 'a list \<Rightarrow> ('k \<times> 'a list) list" where
  "group_by key rows = map (\<lambda>k. (k, filter (\<lambda>r. key r = k) rows)) (remdups (map key rows))"

subsection \<open>Per-URL statistics and \<open>annotate_url\<close>\<close>

text \<open>
  A \<open>url_stats\<close> is a fetched MirrorUrl with the aggregate attributes of \<open>url_data\<close> set
  on it; \<open>annotate_url\<close> adds \<open>completion_pct\<close>, \<open>delay\<close> and \<open>score\<close>.
\<close>

record url_stats =
  s_url :: MirrorUrl
  check_count :: nat
  success_count :: nat
  last_sync :: "datetime option"
  last_check :: datetime
  duration_avg :: "real option"
  duration_stddev :: "real option"

record annotated_url =
  stats :: url_stats
  completion_pct :: real
  delay :: "timedelta option"
  score :: "real option"

definition delay_hours :: "timedelta \<Rightarrow> real" where
  "delay_hours d = real_of_int (days d) * 24.0 + real_of_int (seconds d) / 3600.0"

definition divisor :: "real \<Rightarrow> real" where
  "divisor pct = (if pct > 0 then pct else 0.005)"

definition annotate_url :: "url_stats \<Rightarrow> timedelta option \<Rightarrow> py_error + annotated_url" where
  "annotate_url url dl =
     (if check_count url = 0 then Inl ZeroDivisionError
      else
        let pct = real (success_count url) / real (check_count url) in
        (case dl of
           Some d \<Rightarrow>
             (case (duration_avg url, duration_stddev url) of
                (Some a, Some s) \<Rightarrow>
                  Inr \<lparr>stats = url, completion_pct = pct, delay = Some d,
                       score = Some ((delay_hours d + a + s) / divisor pct)\<rparr>
              | _ \<Rightarrow> Inl TypeError)
         | None \<Rightarrow>
             Inr \<lparr>stats = url, completion_pct = pct, delay = None, score = None\<rparr>))"

subsection \<open>\<open>url_delays\<close>\<close>

text \<open>
  The two SQL statements of \<open>url_delays\<close>: the rows of the log table that are
  successful, checked at or after the cutoff time and have a last sync, in the second
  statement joined with their URL and restricted to one mirror; grouped by URL, with
  the average of \<open>check_time - last_sync\<close> of each group. The result is the dictionary
  from URL id to that average.
\<close>

definition delay_rows :: "datetime \<Rightarrow> int option \<Rightarrow> database \<Rightarrow> MirrorLog list" where
  "delay_rows cutoff_time mirror_id db =
     (case mirror_id of
        None \<Rightarrow>
          filter (\<lambda>l. l_is_success l \<and> cutoff_time \<le> l_check_time l \<and> is_not_null (l_last_sync l))
            (logs db)
      | Some m \<Rightarrow>
          filter (\<lambda>l. l_is_success l \<and> cutoff_time \<le> l_check_time l \<and> is_not_null (l_last_sync l)
                    \<and> (case url_of db l of None \<Rightarrow> False | Some u \<Rightarrow> u_mirror_id u = m))
            (logs db))"

definition sync_delay :: "MirrorLog \<Rightarrow> timedelta" where
  "sync_delay l = l_check_time l - the (l_last_sync l)"

definition url_delays :: "datetime \<Rightarrow> int option \<Rightarrow> database \<Rightarrow> (int \<rightharpoonup> timedelta option)" where
  "url_delays cutoff_time mirror_id db =
     map_of (rev (map (\<lambda>(url_id, g). (url_id, sql_avg_interval (map sync_delay g)))
                    (group_by l_url_id (delay_rows cutoff_time mirror_id db))))"

subsection \<open>\<open>get_mirror_statuses\<close>\<close>

definition active_public :: "database \<Rightarrow> MirrorUrl \<Rightarrow> bool" where
  "active_public db u =
     (case mirror_of db u of None \<Rightarrow> False | Some m \<Rightarrow> m_active m \<and> m_public m)"

definition window_logs :: "datetime \<Rightarrow> database \<Rightarrow> MirrorUrl \<Rightarrow> MirrorLog list" where
  "window_logs cutoff_time db u =
     filter (\<lambda>l. l_url_id l = u_id u \<and> cutoff_time \<le> l_check_time l) (logs db)"

definition valid_urls :: "datetime \<Rightarrow> int option \<Rightarrow> database \<Rightarrow> MirrorUrl list" where
  "valid_urls cutoff_time mirror_id db =
     (let v = filter (\<lambda>u. active_public db u \<and> window_logs cutoff_time db u \<noteq> []) (urls db)
      in if truthy mirror_id then filter (\<lambda>u. Some (u_mirror_id u) = mirror_id) v else v)"

text \<open>
  \<open>url_data\<close>: one row per valid URL that has a log in the window, with the aggregates
  over those logs. The standard deviation is only requested from a store other than
  sqlite; for sqlite the attribute is set to zero before \<open>annotate_url\<close> reads it.
\<close>

definition url_aggregates :: "string \<Rightarrow> datetime \<Rightarrow> database \<Rightarrow> MirrorUrl \<Rightarrow> url_stats" where
  "url_aggregates vendor cutoff_time db u =
     (let ls = window_logs cutoff_time db u; ds = non_null (map l_duration ls) in
        \<lparr>s_url = u,
         check_count = length ls,
         success_count = length ds,
         last_sync = sql_max (non_null (map l_last_sync ls)),
         last_check = Max (set (map l_check_time ls)),
         duration_avg = sql_avg ds,
         duration_stddev = (if vendor \<noteq> ''sqlite'' then sql_stddev ds else None)\<rparr>)"

definition url_data :: "string \<Rightarrow> datetime \<Rightarrow> MirrorUrl list \<Rightarrow> database \<Rightarrow> url_stats list" where
  "url_data vendor cutoff_time valid db =
     map (url_aggregates vendor cutoff_time db)
       (filter (\<lambda>u. u_id u \<in> set (map u_id valid) \<and> window_logs cutoff_time db u \<noteq> [])
          (urls db))"

definition url_data_dict :: "url_stats list \<Rightarrow> (int \<rightharpoonup> url_stats)" where
  "url_data_dict data = map_of (rev (map (\<lambda>item. (u_id (s_url item), item)) data))"

text \<open>
  \<open>urls\<close>: the URLs whose id is among the valid ones, fetched with their mirror and
  protocol, ordered by mirror id, then by url.
\<close>

definition fetched_urls :: "MirrorUrl list \<Rightarrow> database \<Rightarrow> MirrorUrl list" where
  "fetched_urls valid db =
     sort_key (\<lambda>u. (u_mirror_id u, u_url u))
       (filter (\<lambda>u. u_id u \<in> set (map u_id valid) \<and> is_not_null (mirror_of db u)
                  \<and> is_not_null (protocol_of db u)) (urls db))"

text \<open>
  \<open>check_info\<close>: the logs at or after the cutoff time, of the URLs of one mirror when
  \<open>mirror_id\<close> is given, and the least and greatest of their check times.
\<close>

definition checked_logs :: "datetime \<Rightarrow> int option \<Rightarrow> database \<Rightarrow> MirrorLog list" where
  "checked_logs cutoff_time mirror_id db =
     (let ls = filter (\<lambda>l. cutoff_time \<le> l_check_time l) (logs db)
      in if truthy mirror_id
         then filter (\<lambda>l. case url_of db l of None \<Rightarrow> False
                           | Some u \<Rightarrow> Some (u_mirror_id u) = mirror_id) ls
         else ls)"

definition check_info ::
    "datetime \<Rightarrow> int option \<Rightarrow> database \<Rightarrow> datetime option \<times> datetime option" where
  "check_info cutoff_time mirror_id db =
     (let ts = map l_check_time (checked_logs cutoff_time mirror_id db)
      in (sql_min ts, sql_max ts))"

text \<open>
  The check frequency: the span of the check times over one less than the number of
  checks, a timedelta divided by an integer (whole microseconds, rounded down).
\<close>

definition frequency ::
    "nat \<Rightarrow> datetime option \<times> datetime option \<Rightarrow> py_error + timedelta option" where
  "frequency n info =
     (case info of (mn, mx) \<Rightarrow>
        if n > 1
        then (case (mx, mn) of
                (Some a, Some b) \<Rightarrow> Inr (Some ((a - b) div (int n - 1)))
              | _ \<Rightarrow> Inl TypeError)
        else Inr None)"

text \<open>
  The attributes of \<open>url_data\<close> are set on each fetched URL by id; a URL without a row
  gets none, and reading \<open>last_check\<close> from it raises.
\<close>

fun set_stats :: "(int \<rightharpoonup> url_stats) \<Rightarrow> MirrorUrl list \<Rightarrow> py_error + url_stats list" where
  "set_stats d [] = Inr []"
| "set_stats d (url # rest) =
     (case d (u_id url) of
        None \<Rightarrow> Inl AttributeError
      | Some item \<Rightarrow>
          (case set_stats d rest of
             Inl e \<Rightarrow> Inl e
           | Inr us \<Rightarrow> Inr (item\<lparr>s_url := url\<rparr> # us)))"

text \<open>
  The last loop: for sqlite the standard deviation is faked as zero, then each URL is
  annotated with \<open>delays.get(url.id, None)\<close>.
\<close>

definition sqlite_stddev :: "string \<Rightarrow> url_stats \<Rightarrow> url_stats" where
  "sqlite_stddev vendor url =
     (if vendor = ''sqlite'' then url\<lparr>duration_stddev := Some 0.0\<rparr> else url)"

definition delays_get :: "(int \<rightharpoonup> timedelta option) \<Rightarrow> int \<Rightarrow> timedelta option" where
  "delays_get delays k = (case delays k of None \<Rightarrow> None | Some d \<Rightarrow> d)"

fun annotate_all :: "string \<Rightarrow> (int \<rightharpoonup> timedelta option) \<Rightarrow> url_stats list
    \<Rightarrow> py_error + annotated_url list" where
  "annotate_all vendor delays [] = Inr []"
| "annotate_all vendor delays (url # rest) =
     (case annotate_url (sqlite_stddev vendor url) (delays_get delays (u_id (s_url url))) of
        Inl e \<Rightarrow> Inl e
      | Inr a \<Rightarrow>
          (case annotate_all vendor delays rest of
             Inl e \<Rightarrow> Inl e
           | Inr as \<Rightarrow> Inr (a # as)))"

record mirror_statuses =
  ms_cutoff :: timedelta
  ms_last_check :: "datetime option"
  num_checks :: nat
  check_frequency :: "timedelta option"
  ms_urls :: "annotated_url list"

definition get_mirror_statuses ::
    "string \<Rightarrow> datetime \<Rightarrow> timedelta \<Rightarrow> int option \<Rightarrow> database \<Rightarrow> py_error + mirror_statuses" where
  "get_mirror_statuses vendor now cutoff mirror_id db =
     (let cutoff_time = now - cutoff;
          valid = valid_urls cutoff_time mirror_id db;
          data = url_data vendor cutoff_time valid db;
          fetched = fetched_urls valid db;
          delays = url_delays cutoff_time mirror_id db
      in
        if fetched \<noteq> [] then
          (case set_stats (url_data_dict data) fetched of
             Inl e \<Rightarrow> Inl e
           | Inr us \<Rightarrow>
               let lc = Max (set (map last_check us));
                   n = Max (set (map check_count us))
               in
                 (case frequency n (check_info cutoff_time mirror_id db) of
                    Inl e \<Rightarrow> Inl e
                  | Inr cf \<Rightarrow>
                      (case annotate_all vendor delays us of
                         Inl e \<Rightarrow> Inl e
                       | Inr as \<Rightarrow>
                           Inr \<lparr>ms_cutoff = cutoff, ms_last_check = Some lc, num_checks = n,
                                check_frequency = cf, ms_urls = as\<rparr>)))
        else
          Inr \<lparr>ms_cutoff = cutoff, ms_last_check = None, num_checks = 0,
               check_frequency = None, ms_urls = []\<rparr>)"

subsection \<open>\<open>get_mirror_errors\<close>\<close>

record error_row =
  url__url :: string
  url__country :: string
  url__protocol__protocol :: string
  url__mirror__tier :: int
  error :: string
  error_count :: nat
  last_occurred :: datetime
  country :: "string option"

text \<open>
  The failed logs at or after the cutoff time, joined with their URL, its mirror (which
  must be active and public) and its protocol.
\<close>

definition error_logs ::
    "datetime \<Rightarrow> database \<Rightarrow> (MirrorLog \<times> MirrorUrl \<times> Mirror \<times> MirrorProtocol) list" where
  "error_logs cutoff_time db =
     concat (map (\<lambda>l.
        if \<not> l_is_success l \<and> cutoff_time \<le> l_check_time l then
          (case url_of db l of
             None \<Rightarrow> []
           | Some u \<Rightarrow>
               (case (mirror_of db u, protocol_of db u) of
                  (Some m, Some p) \<Rightarrow> if m_active m \<and> m_public m then [(l, u, m, p)] else []
                | _ \<Rightarrow> []))
        else []) (logs db))"

definition error_key ::
    "MirrorLog \<times> MirrorUrl \<times> Mirror \<times> MirrorProtocol
      \<Rightarrow> string \<times> string \<times> string \<times> int \<times> string" where
  "error_key r = (case r of (l, u, m, p) \<Rightarrow>
     (u_url u, u_country u, p_protocol p, m_tier m, l_error l))"

text \<open>
  One row per group: the grouping columns, the number of logs of the group and the
  latest of their check times. The rows are ordered by \<open>last_occurred\<close> descending,
  then by \<open>error_count\<close> descending.
\<close>

definition error_row_of ::
    "(string \<times> string \<times> string \<times> int \<times> string)
      \<times> (MirrorLog \<times> MirrorUrl \<times> Mirror \<times> MirrorProtocol) list \<Rightarrow> error_row" where
  "error_row_of = (\<lambda>(k, g). case k of (uu, uc, pp, mt, er) \<Rightarrow>
     \<lparr>url__url = uu, url__country = uc, url__protocol__protocol = pp,
      url__mirror__tier = mt, error = er,
      error_count = length g,
      last_occurred = Max (set (map (\<lambda>r. l_check_time (fst r)) g)),
      country = None\<rparr>)"

definition error_rows :: "datetime \<Rightarrow> database \<Rightarrow> error_row list" where
  "error_rows cutoff_time db =
     sort_key (\<lambda>r. (- last_occurred r, - int (error_count r)))
       (map error_row_of (group_by error_key (error_logs cutoff_time db)))"


definition get_mirror_errors ::
    "datetime \<Rightarrow> timedelta \<Rightarrow> int option \<Rightarrow> database \<Rightarrow> py_error + error_row list" where
  "get_mirror_errors now cutoff mirror_id db =
     (let cutoff_time = now - cutoff;
          errors = error_rows cutoff_time db
      in if truthy mirror_id then Inl NameError
         else Inr (map (\<lambda>err. err\<lparr>country := Some (url__country err)\<rparr>) errors))"

subsection \<open>\<open>get_mirror_url_for_download\<close>\<close>

text \<open>
  \<open>order_by('duration')\<close> sorts ascending; where the store puts a null duration
  (first or last) is the store's choice, the parameter \<open>nulls_first\<close>.
\<close>

definition duration_key :: "bool \<Rightarrow> MirrorLog \<Rightarrow> nat \<times> real" where
  "duration_key nulls_first l =
     (case l_duration l of
        None \<Rightarrow> (if nulls_first then 0 else 1, 0)
      | Some d \<Rightarrow> (if nulls_first then 1 else 0, d))"

definition public_active_default :: "database \<Rightarrow> MirrorUrl \<Rightarrow> bool" where
  "public_active_default db u =
     ((case mirror_of db u of None \<Rightarrow> False | Some m \<Rightarrow> m_public m \<and> m_active m) \<and>
      (case protocol_of db u of None \<Rightarrow> False | Some p \<Rightarrow> p_default p))"

definition fresh_logs :: "datetime \<Rightarrow> datetime \<Rightarrow> database \<Rightarrow> MirrorLog list" where
  "fresh_logs min_check_time min_sync_time db =
     filter (\<lambda>l. l_is_success l \<and> min_check_time \<le> l_check_time l
               \<and> (case l_last_sync l of None \<Rightarrow> False | Some s \<Rightarrow> min_sync_time \<le> s)
               \<and> (case url_of db l of None \<Rightarrow> False | Some u \<Rightarrow> public_active_default db u))
       (logs db)"

definition fallback_url :: "database \<Rightarrow> MirrorUrl option" where
  "fallback_url db =
     (let mirror_urls = filter (public_active_default db) (urls db);
          filtered_urls = take 1 (filter (\<lambda>u. u_country u = []) mirror_urls);
          filtered_urls = (if filtered_urls = [] then take 1 mirror_urls else filtered_urls)
      in case filtered_urls of [] \<Rightarrow> None | u # _ \<Rightarrow> Some u)"

text \<open>
  \<open>status_data\<close>: the greatest check time and the greatest last sync of the logs at or
  after the cutoff time.
\<close>

definition status_data :: "datetime \<Rightarrow> database \<Rightarrow> datetime option \<times> datetime option" where
  "status_data cutoff_time db =
     (let window = filter (\<lambda>l. cutoff_time \<le> l_check_time l) (logs db)
      in (sql_max (map l_check_time window), sql_max (non_null (map l_last_sync window))))"

definition get_mirror_url_for_download ::
    "bool \<Rightarrow> datetime \<Rightarrow> timedelta \<Rightarrow> database \<Rightarrow> py_error + MirrorUrl option" where
  "get_mirror_url_for_download nulls_first now cutoff db =
     (let cutoff_time = now - cutoff;
          (check_time__max, last_sync__max) = status_data cutoff_time db
      in case check_time__max of
           Some mc \<Rightarrow>
             (case last_sync__max of
                None \<Rightarrow> Inl TypeError
              | Some ms \<Rightarrow>
                  let min_check_time = mc - minutes 5;
                      min_sync_time = ms - minutes 20;
                      best_logs = take 1 (sort_key (duration_key nulls_first)
                                    (fresh_logs min_check_time min_sync_time db))
                  in (case best_logs of
                        b # _ \<Rightarrow>
                          (case url_of db b of
                             None \<Rightarrow> Inl DoesNotExist
                           | Some u \<Rightarrow> Inr (Some u))
                      | [] \<Rightarrow> Inr (fallback_url db)))
         | None \<Rightarrow> Inr (fallback_url db))"

subsection \<open>Example data\<close>

text \<open>
  One active, public mirror with one URL on the default protocol; the examples differ in
  the logs of that URL. Times are written in hours since the epoch.
\<close>

definition ex_mirror :: Mirror where
  "ex_mirror = \<lparr>m_id = 1, m_tier = 1, m_active = True, m_public = True\<rparr>"

definition ex_http :: MirrorProtocol where
  "ex_http = \<lparr>p_id = 1, p_protocol = ''http'', p_default = True\<rparr>"

definition ex_url :: MirrorUrl where
  "ex_url = \<lparr>u_id = 10, u_url = ''http://mirror.example/'', u_mirror_id = 1,
             u_protocol_id = 1, u_country = ''DE''\<rparr>"

definition ex_log ::
    "datetime \<Rightarrow> datetime option \<Rightarrow> real option \<Rightarrow> bool \<Rightarrow> string \<Rightarrow> MirrorLog" where
  "ex_log t s d ok e =
     \<lparr>l_url_id = 10, l_check_time = t, l_last_sync = s, l_duration = d,
      l_is_success = ok, l_error = e\<rparr>"

definition ex_db :: "MirrorLog list \<Rightarrow> database" where
  "ex_db ls = \<lparr>mirrors = [ex_mirror], protocols = [ex_http], urls = [ex_url], logs = ls\<rparr>"

text \<open>Two successful checks, an hour apart, each taking half a second.\<close>

definition healthy_logs :: "MirrorLog list" where
  "healthy_logs =
     [ex_log (hours_td 100) (Some (hours_td 99)) (Some 0.5) True [],
      ex_log (hours_td 101) (Some (hours_td 99)) (Some 0.5) True []]"

definition healthy_annotated :: annotated_url where
  "healthy_annotated =
     \<lparr>stats = \<lparr>s_url = ex_url, check_count = 2, success_count = 2,
               last_sync = Some (hours_td 99), last_check = hours_td 101,
               duration_avg = Some 0.5, duration_stddev = Some 0\<rparr>,
      completion_pct = 1, delay = Some (minutes 90), score = Some 2\<rparr>"

definition healthy_statuses :: mirror_statuses where
  "healthy_statuses =
     \<lparr>ms_cutoff = DEFAULT_CUTOFF, ms_last_check = Some (hours_td 101), num_checks = 2,
      check_frequency = Some (hours_td 1), ms_urls = [healthy_annotated]\<rparr>"

text \<open>A single failed check: no duration, no last sync.\<close>

definition failed_logs :: "MirrorLog list" where
  "failed_logs = [ex_log (hours_td 100) None None False ''timed out'']"



text \<open>A check whose last sync lies two hours after the check itself (a mirror whose
  \<open>lastsync\<close> file is ahead of the checker's clock).\<close>

definition skewed_logs :: "MirrorLog list" where
  "skewed_logs = [ex_log (hours_td 100) (Some (hours_td 102)) (Some 0.5) True []]"

definition skewed_annotated :: annotated_url where
  "skewed_annotated =
     \<lparr>stats = \<lparr>s_url = ex_url, check_count = 1, success_count = 1,
               last_sync = Some (hours_td 102), last_check = hours_td 100,
               duration_avg = Some 0.5, duration_stddev = Some 0\<rparr>,
      completion_pct = 1, delay = Some (hours_td (- 2)), score = Some (- 1.5)\<rparr>"

definition skewed_statuses :: mirror_statuses where
  "skewed_statuses =
     \<lparr>ms_cutoff = DEFAULT_CUTOFF, ms_last_check = Some (hours_td 100), num_checks = 1,
      check_frequency = None, ms_urls = [skewed_annotated]\<rparr>"

text \<open>The healthy checks followed by a failed one.\<close>

definition degraded_logs :: "MirrorLog list" where
  "degraded_logs = healthy_logs @ [ex_log (hours_td 101) None None False ''timed out'']"

definition degraded_annotated :: annotated_url where
  "degraded_annotated =
     \<lparr>stats = \<lparr>s_url = ex_url, check_count = 3, success_count = 2,
               last_sync = Some (hours_td 99), last_check = hours_td 101,
               duration_avg = Some 0.5, duration_stddev = Some 0\<rparr>,
      completion_pct = 2 / 3, delay = Some (minutes 90), score = Some 3\<rparr>"

definition degraded_statuses :: mirror_statuses where
  "degraded_statuses =
     \<lparr>ms_cutoff = DEFAULT_CUTOFF, ms_last_check = Some (hours_td 101), num_checks = 3,
      check_frequency = Some (minutes 30), ms_urls = [degraded_annotated]\<rparr>"

text \<open>
  A successful check with a duration and a successful check without one, with last
  syncs one and three hours before the check.
\<close>

definition untimed_logs :: "MirrorLog list" where
  "untimed_logs =
     [ex_log (hours_td 100) (Some (hours_td 99)) (Some 0.5) True [],
      ex_log (hours_td 101) (Some (hours_td 98)) None True []]"

definition untimed_annotated :: annotated_url where
  "untimed_annotated =
     \<lparr>stats = \<lparr>s_url = ex_url, check_count = 2, success_count = 1,
               last_sync = Some (hours_td 99), last_check = hours_td 101,
               duration_avg = Some 0.5, duration_stddev = Some 0\<rparr>,
      completion_pct = 1 / 2, delay = Some (hours_td 2), score = Some 5\<rparr>"

definition untimed_statuses :: mirror_statuses where
  "untimed_statuses =
     \<lparr>ms_cutoff = DEFAULT_CUTOFF, ms_last_check = Some (hours_td 101), num_checks = 2,
      check_frequency = Some (hours_td 1), ms_urls = [untimed_annotated]\<rparr>"

text \<open>
  The samples as C7 words them: the logs in the window that are successful, timed and
  have a last sync.
\<close>

definition claimed_delay_samples :: "datetime \<Rightarrow> database \<Rightarrow> int \<Rightarrow> MirrorLog list" where
  "claimed_delay_samples cutoff_time db k =
     filter (\<lambda>l. l_is_success l \<and> is_not_null (l_duration l) \<and> is_not_null (l_last_sync l)
               \<and> cutoff_time \<le> l_check_time l \<and> l_url_id l = k) (logs db)"

text \<open>A second URL of the same mirror, without a country, and tables without logs.\<close>

definition ex_url_global :: MirrorUrl where
  "ex_url_global = \<lparr>u_id = 11, u_url = ''http://global.example/'', u_mirror_id = 1,
             u_protocol_id = 1, u_country = []\<rparr>"

definition two_url_db :: database where
  "two_url_db = \<lparr>mirrors = [ex_mirror], protocols = [ex_http],
                  urls = [ex_url, ex_url_global], logs = []\<rparr>"

definition empty_db :: database where
  "empty_db = \<lparr>mirrors = [], protocols = [], urls = [], logs = []\<rparr>"

text \<open>Two failures with the same message an hour apart, and one with another message.\<close>

definition error_logs_example :: "MirrorLog list" where
  "error_logs_example =
     [ex_log (hours_td 100) None None False ''timed out'',
      ex_log (hours_td 100 + minutes 30) None None False ''404'',
      ex_log (hours_td 101) None None False ''timed out'']"

definition ex_error_row :: "string \<Rightarrow> nat \<Rightarrow> datetime \<Rightarrow> error_row" where
  "ex_error_row e n t =
     \<lparr>url__url = ''http://mirror.example/'', url__country = ''DE'',
      url__protocol__protocol = ''http'', url__mirror__tier = 1, error = e,
      error_count = n, last_occurred = t, country = Some ''DE''\<rparr>"

text \<open>A failed check that has a last sync.\<close>

definition stale_failed_logs :: "MirrorLog list" where
  "stale_failed_logs = [ex_log (hours_td 100) (Some (hours_td 99)) None False ''404'']"

text \<open>
  Two URLs. The log of the second is quick but two hours old; the two logs of the first
  are within five minutes of the latest check and twenty minutes of the latest sync.
\<close>

definition fresh_db :: database where
  "fresh_db =
     \<lparr>mirrors = [ex_mirror], protocols = [ex_http], urls = [ex_url_global, ex_url],
      logs =
        [(ex_log (hours_td 99) (Some (hours_td 98)) (Some 0.1) True [])\<lparr>l_url_id := 11\<rparr>,
         ex_log (hours_td 101) (Some (hours_td 100 + minutes 50)) (Some 0.5) True [],
         ex_log (hours_td 101 - minutes 2) (Some (hours_td 100 + minutes 55)) (Some 0.3) True []]\<rparr>"

text \<open>
  A successful check without a duration, alone; and statistics with a delay sample but
  no success, as \<open>annotate_url\<close> accepts them.
\<close>

definition untimed_only_logs :: "MirrorLog list" where
  "untimed_only_logs = [ex_log (hours_td 100) (Some (hours_td 99)) None True []]"

definition zero_stats :: url_stats where
  "zero_stats =
     \<lparr>s_url = ex_url, check_count = 4, success_count = 0,
      last_sync = Some (hours_td 99), last_check = hours_td 100,
      duration_avg = Some 0.5, duration_stddev = Some 0\<rparr>"

text \<open>
  Two URLs around a cutoff time of 78 hours. The log of the first is a minute after the
  cutoff time; the log of the second is a minute before it, with a last sync fifty
  minutes after that of the first, and is the quicker one.
\<close>

definition boundary_db :: database where
  "boundary_db =
     \<lparr>mirrors = [ex_mirror], protocols = [ex_http], urls = [ex_url, ex_url_global],
      logs =
        [ex_log (hours_td 78 + minutes 1) (Some (hours_td 77)) (Some 0.5) True [],
         (ex_log (hours_td 78 - minutes 1) (Some (hours_td 77 + minutes 50)) (Some 0.1) True [])
           \<lparr>l_url_id := 11\<rparr>]\<rparr>"

section \<open>Auxiliary lemmas\<close>

subsection \<open>Evaluation of the examples\<close>

lemmas eval_defs =
  get_mirror_statuses_def valid_urls_def url_data_def url_aggregates_def window_logs_def
  active_public_def mirror_of_def url_of_def protocol_of_def truthy_def
  url_data_dict_def fetched_urls_def frequency_def sqlite_stddev_def delays_get_def
  url_delays_def delay_rows_def group_by_def sql_avg_interval_def sync_delay_def
  sql_max_def sql_min_def sql_avg_def sql_stddev_def is_not_null_def check_info_def
  checked_logs_def
  annotate_url_def delay_hours_def divisor_def days_def seconds_def hours_td_def
  DEFAULT_CUTOFF_def minutes_def
  ex_mirror_def ex_http_def ex_url_def ex_log_def ex_db_def

lemmas eval_defs2 =
  get_mirror_errors_def error_rows_def error_row_of_def error_logs_def error_key_def
  group_by_def
  get_mirror_url_for_download_def status_data_def fresh_logs_def fallback_url_def public_active_default_def
  duration_key_def sql_max_def mirror_of_def url_of_def protocol_of_def truthy_def
  hours_td_def minutes_def DEFAULT_CUTOFF_def
  ex_mirror_def ex_http_def ex_url_def ex_log_def ex_db_def

lemma healthy_eval:
  "get_mirror_statuses ''postgresql'' (hours_td 102) DEFAULT_CUTOFF None (ex_db healthy_logs)
     = Inr healthy_statuses"
  by (simp add: eval_defs healthy_logs_def healthy_statuses_def healthy_annotated_def)


lemma skewed_eval:
  "get_mirror_statuses ''postgresql'' (hours_td 102) DEFAULT_CUTOFF None (ex_db skewed_logs)
     = Inr skewed_statuses"
  by (simp add: eval_defs skewed_logs_def skewed_statuses_def skewed_annotated_def)

lemma degraded_eval:
  "get_mirror_statuses ''postgresql'' (hours_td 102) DEFAULT_CUTOFF None (ex_db degraded_logs)
     = Inr degraded_statuses"
  by (simp add: eval_defs degraded_logs_def healthy_logs_def degraded_statuses_def degraded_annotated_def)

lemma untimed_only_eval:
  "get_mirror_statuses ''postgresql'' (hours_td 102) DEFAULT_CUTOFF None
     (ex_db untimed_only_logs) = Inl TypeError"
  by (simp add: eval_defs Let_def untimed_only_logs_def)

lemma untimed_only_eval_sqlite:
  "get_mirror_statuses ''sqlite'' (hours_td 102) DEFAULT_CUTOFF None
     (ex_db untimed_only_logs) = Inl TypeError"
  by (simp add: eval_defs Let_def untimed_only_logs_def)

lemma untimed_eval:
  "get_mirror_statuses ''postgresql'' (hours_td 102) DEFAULT_CUTOFF None (ex_db untimed_logs)
     = Inr untimed_statuses"
  by (simp add: eval_defs Let_def untimed_logs_def untimed_statuses_def untimed_annotated_def)


lemma errors_eval0:
  "get_mirror_errors (hours_td 102) DEFAULT_CUTOFF (Some 0) (ex_db error_logs_example) =
     Inr [ex_error_row ''timed out'' 2 (hours_td 101),
          ex_error_row ''404'' 1 (hours_td 100 + minutes 30)]"
  by code_simp

lemma errors_eval1:
  "get_mirror_errors (hours_td 102) DEFAULT_CUTOFF (Some 1) (ex_db error_logs_example) =
     Inl NameError"
  by code_simp

lemma fresh_db_status:
  "status_data (hours_td 102 - DEFAULT_CUTOFF) fresh_db
     = (Some (hours_td 101), Some (hours_td 100 + minutes 55))"
  by (simp add: status_data_def fresh_db_def ex_log_def sql_max_def hours_td_def minutes_def
      DEFAULT_CUTOFF_def)

lemma fresh_db_fresh_logs:
  "fresh_logs (hours_td 101 - minutes 5) (hours_td 100 + minutes 55 - minutes 20) fresh_db =
     [ex_log (hours_td 101) (Some (hours_td 100 + minutes 50)) (Some 0.5) True [],
      ex_log (hours_td 101 - minutes 2) (Some (hours_td 100 + minutes 55)) (Some 0.3) True []]"
  by (simp add: fresh_logs_def fresh_db_def ex_log_def hours_td_def minutes_def
      public_active_default_def url_of_def mirror_of_def protocol_of_def
      ex_url_def ex_url_global_def ex_mirror_def ex_http_def)

lemma stale_failed_status:
  "status_data (hours_td 102 - DEFAULT_CUTOFF) (ex_db stale_failed_logs)
     = (Some (hours_td 100), Some (hours_td 99))"
  by (simp add: status_data_def stale_failed_logs_def ex_db_def ex_log_def sql_max_def
      hours_td_def DEFAULT_CUTOFF_def)

lemma stale_failed_fresh_logs:
  "fresh_logs (hours_td 100 - minutes 5) (hours_td 99 - minutes 20) (ex_db stale_failed_logs)
     = []"
  by (simp add: fresh_logs_def stale_failed_logs_def ex_db_def ex_log_def)

lemma stale_failed_fallback: "fallback_url (ex_db stale_failed_logs) = Some ex_url"
  by (simp add: fallback_url_def public_active_default_def mirror_of_def protocol_of_def
      ex_db_def ex_url_def ex_mirror_def ex_http_def)

lemma boundary_status:
  "status_data (hours_td 102 - DEFAULT_CUTOFF) boundary_db
     = (Some (hours_td 78 + minutes 1), Some (hours_td 77))"
  by (simp add: status_data_def boundary_db_def ex_log_def sql_max_def hours_td_def
      minutes_def DEFAULT_CUTOFF_def)

lemma boundary_fresh_logs:
  "fresh_logs (hours_td 78 + minutes 1 - minutes 5) (hours_td 77 - minutes 20) boundary_db =
     [ex_log (hours_td 78 + minutes 1) (Some (hours_td 77)) (Some 0.5) True [],
      (ex_log (hours_td 78 - minutes 1) (Some (hours_td 77 + minutes 50)) (Some 0.1) True [])
        \<lparr>l_url_id := 11\<rparr>]"
  by (simp add: fresh_logs_def boundary_db_def ex_log_def hours_td_def minutes_def
      public_active_default_def url_of_def mirror_of_def protocol_of_def
      ex_url_def ex_url_global_def ex_mirror_def ex_http_def)

subsection \<open>The hours of a delay\<close>

text \<open>
  \<open>days * 24 + seconds / 3600\<close> is the delay in hours, counted in whole seconds: the
  microseconds attribute of the timedelta is not read.
\<close>

lemma whole_seconds:
  "(d::int) div 1000000 = (d div 86400000000) * 86400 + (d mod 86400000000) div 1000000"
proof -
  have "d = 86400000000 * (d div 86400000000) + d mod 86400000000" by simp
  then have "d div 1000000 =
      (1000000 * (86400 * (d div 86400000000)) + d mod 86400000000) div 1000000"
    by simp
  also have "\<dots> = 86400 * (d div 86400000000) + (d mod 86400000000) div 1000000"
  proof -
    have "(1000000 * k + r) div 1000000 = k + r div 1000000" for k r :: int by simp
    then show ?thesis .
  qed
  finally show ?thesis by simp
qed

lemma delay_hours_whole_seconds:
  "delay_hours d = real_of_int (d div 1000000) / 3600"
  unfolding delay_hours_def days_def seconds_def
  by (subst whole_seconds[of d]) (simp add: field_simps)

lemma total_microseconds_id: "total_microseconds d = d"
proof -
  have "d = (d div 1000000) * 1000000 + d mod 1000000" by simp
  then show ?thesis
    unfolding total_microseconds_def days_def seconds_def microseconds_def
    by (subst (asm) whole_seconds[of d]) simp
qed

subsection \<open>\<open>annotate_url\<close> and the loops over the URLs\<close>

lemma annotate_url_InrD:
  assumes "annotate_url url dl = Inr a"
  shows "check_count url \<noteq> 0" "stats a = url" "delay a = dl"
    "completion_pct a = real (success_count url) / real (check_count url)"
  using assms
  by (auto simp: annotate_url_def Let_def split: if_splits option.splits)

lemma annotate_url_score_Some:
  assumes "annotate_url url (Some d) = Inr a"
  shows "\<exists>avg sd. duration_avg url = Some avg \<and> duration_stddev url = Some sd \<and>
           score a = Some ((delay_hours d + avg + sd) / divisor (completion_pct a))"
  using assms
  by (auto simp: annotate_url_def Let_def split: if_splits option.splits)

lemma annotate_url_score_None:
  assumes "annotate_url url None = Inr a"
  shows "score a = None"
  using assms
  by (auto simp: annotate_url_def Let_def split: if_splits option.splits)

lemma annotate_all_mem:
  "annotate_all vendor delays us = Inr as \<Longrightarrow> a \<in> set as \<Longrightarrow>
     \<exists>url \<in> set us.
       annotate_url (sqlite_stddev vendor url) (delays_get delays (u_id (s_url url))) = Inr a"
proof (induction us arbitrary: as)
  case Nil
  then show ?case by simp
next
  case (Cons url rest)
  from Cons.prems(1) obtain a0 as0 where
    a0: "annotate_url (sqlite_stddev vendor url) (delays_get delays (u_id (s_url url))) = Inr a0"
    and as0: "annotate_all vendor delays rest = Inr as0" and as: "as = a0 # as0"
    by (auto split: sum.splits)
  show ?case
  proof (cases "a = a0")
    case True
    with a0 show ?thesis by auto
  next
    case False
    with Cons.prems(2) as have "a \<in> set as0" by simp
    from Cons.IH[OF as0 this] show ?thesis by auto
  qed
qed

lemma set_stats_mem:
  "set_stats d fetched = Inr us \<Longrightarrow> st \<in> set us \<Longrightarrow>
     \<exists>url \<in> set fetched. \<exists>item. d (u_id url) = Some item \<and> st = item\<lparr>s_url := url\<rparr>"
proof (induction fetched arbitrary: us)
  case Nil
  then show ?case by simp
next
  case (Cons url rest)
  from Cons.prems(1) obtain item us0 where
    it: "d (u_id url) = Some item" and us0: "set_stats d rest = Inr us0"
    and us: "us = item\<lparr>s_url := url\<rparr> # us0"
    by (auto split: option.splits sum.splits)
  show ?case
  proof (cases "st = item\<lparr>s_url := url\<rparr>")
    case True
    with it show ?thesis by auto
  next
    case False
    with Cons.prems(2) us have "st \<in> set us0" by simp
    from Cons.IH[OF us0 this] show ?thesis by auto
  qed
qed


subsection \<open>The rows of \<open>url_data\<close>\<close>

lemma window_logs_cong: "u_id u' = u_id u \<Longrightarrow> window_logs ct db u' = window_logs ct db u"
  by (simp add: window_logs_def)

lemma url_aggregates_s_url:
  "u_id u' = u_id u \<Longrightarrow>
     (url_aggregates vendor ct db u')\<lparr>s_url := u\<rparr> = url_aggregates vendor ct db u"
  by (simp add: url_aggregates_def Let_def window_logs_cong[of u' u])

lemma url_data_lookup:
  assumes "url_data_dict (url_data vendor ct valid db) k = Some item"
  shows "\<exists>u' \<in> set (urls db). u_id u' = k \<and> window_logs ct db u' \<noteq> [] \<and>
           u_id u' \<in> u_id ` set valid \<and> item = url_aggregates vendor ct db u'"
proof -
  from map_of_SomeD[OF assms[unfolded url_data_dict_def]]
  have "(k, item) \<in> set (map (\<lambda>item. (u_id (s_url item), item)) (url_data vendor ct valid db))"
    by simp
  then obtain u' where "u' \<in> set (urls db)" "u_id u' \<in> u_id ` set valid"
      "window_logs ct db u' \<noteq> []"
      "item = url_aggregates vendor ct db u'" "k = u_id (s_url item)"
    by (auto simp: url_data_def)
  moreover have "s_url (url_aggregates vendor ct db u') = u'"
    by (simp add: url_aggregates_def Let_def)
  ultimately show ?thesis by auto
qed

lemma fetched_urls_set:
  "u \<in> set (fetched_urls valid db) \<Longrightarrow> u \<in> set (urls db) \<and> u_id u \<in> u_id ` set valid"
  by (auto simp: fetched_urls_def)

subsection \<open>The result of \<open>get_mirror_statuses\<close>\<close>

lemma gms_cases:
  assumes "get_mirror_statuses vendor now cutoff mirror_id db = Inr r"
  obtains
    (empty) "fetched_urls (valid_urls (now - cutoff) mirror_id db) db = []"
      "r = \<lparr>ms_cutoff = cutoff, ms_last_check = None, num_checks = 0,
             check_frequency = None, ms_urls = []\<rparr>"
  | (urls) us cf as where
      "fetched_urls (valid_urls (now - cutoff) mirror_id db) db \<noteq> []"
      "set_stats (url_data_dict (url_data vendor (now - cutoff)
          (valid_urls (now - cutoff) mirror_id db) db))
          (fetched_urls (valid_urls (now - cutoff) mirror_id db) db) = Inr us"
      "frequency (Max (set (map check_count us))) (check_info (now - cutoff) mirror_id db)
         = Inr cf"
      "annotate_all vendor (url_delays (now - cutoff) mirror_id db) us = Inr as"
      "r = \<lparr>ms_cutoff = cutoff, ms_last_check = Some (Max (set (map last_check us))),
             num_checks = Max (set (map check_count us)), check_frequency = cf,
             ms_urls = as\<rparr>"
  using assms
  by (auto simp: get_mirror_statuses_def Let_def split: if_splits sum.splits)

text \<open>
  Every URL of the result is the annotation of a URL of the table that has a log in the
  window, with the aggregates over those logs and the delay looked up by its id.
\<close>

lemma gms_output:
  assumes "get_mirror_statuses vendor now cutoff mirror_id db = Inr r"
    and "a \<in> set (ms_urls r)"
  shows "\<exists>u \<in> set (urls db). window_logs (now - cutoff) db u \<noteq> [] \<and>
           annotate_url (sqlite_stddev vendor (url_aggregates vendor (now - cutoff) db u))
             (delays_get (url_delays (now - cutoff) mirror_id db) (u_id u)) = Inr a"
  using assms(1)
proof (cases rule: gms_cases)
  case empty
  with assms(2) show ?thesis by simp
next
  case (urls us cf as)
  from urls(5) assms(2) have "a \<in> set as" by simp
  from annotate_all_mem[OF urls(4) this] obtain st where
    st: "st \<in> set us" and
    an: "annotate_url (sqlite_stddev vendor st)
           (delays_get (url_delays (now - cutoff) mirror_id db) (u_id (s_url st))) = Inr a"
    by blast
  from set_stats_mem[OF urls(2) st] obtain u item where
    u: "u \<in> set (fetched_urls (valid_urls (now - cutoff) mirror_id db) db)" and
    it: "url_data_dict (url_data vendor (now - cutoff)
           (valid_urls (now - cutoff) mirror_id db) db) (u_id u) = Some item"
    and steq: "st = item\<lparr>s_url := u\<rparr>"
    by blast
  from url_data_lookup[OF it] obtain u' where
    u': "u_id u' = u_id u" "window_logs (now - cutoff) db u' \<noteq> []"
      "item = url_aggregates vendor (now - cutoff) db u'"
    by blast
  have "st = url_aggregates vendor (now - cutoff) db u"
    using steq u'(3) url_aggregates_s_url[OF u'(1)] by simp
  moreover have "s_url st = u" using steq by simp
  moreover have "window_logs (now - cutoff) db u \<noteq> []"
    using u'(2) window_logs_cong[OF u'(1)] by simp
  moreover have "u \<in> set (urls db)" using fetched_urls_set[OF u] by simp
  ultimately show ?thesis using an by auto
qed

subsection \<open>Counts and aggregates of a returned URL\<close>

lemma length_non_null: "length (non_null xs) = length (filter (\<lambda>x. x \<noteq> None) xs)"
  by (induction xs rule: non_null.induct) simp_all

lemma length_non_null_le: "length (non_null xs) \<le> length xs"
  by (simp add: length_non_null)

lemma non_null_map_filter:
  "length (non_null (map f xs)) = length (filter (\<lambda>x. f x \<noteq> None) xs)"
  by (simp add: length_non_null filter_map comp_def)

lemma gms_output_stats:
  assumes "get_mirror_statuses vendor now cutoff mirror_id db = Inr r"
    and "a \<in> set (ms_urls r)"
  shows "s_url (stats a) \<in> set (urls db)"
    "window_logs (now - cutoff) db (s_url (stats a)) \<noteq> []"
    "stats a = sqlite_stddev vendor (url_aggregates vendor (now - cutoff) db (s_url (stats a)))"
    "delay a = delays_get (url_delays (now - cutoff) mirror_id db) (u_id (s_url (stats a)))"
    "completion_pct a = real (success_count (stats a)) / real (check_count (stats a))"
proof -
  from gms_output[OF assms] obtain u where u: "u \<in> set (urls db)"
    "window_logs (now - cutoff) db u \<noteq> []"
    "annotate_url (sqlite_stddev vendor (url_aggregates vendor (now - cutoff) db u))
             (delays_get (url_delays (now - cutoff) mirror_id db) (u_id u)) = Inr a"
    by blast
  have su: "s_url (stats a) = u"
    using annotate_url_InrD(2)[OF u(3)]
    by (simp add: sqlite_stddev_def url_aggregates_def Let_def)
  show "s_url (stats a) \<in> set (urls db)" using su u(1) by simp
  show "window_logs (now - cutoff) db (s_url (stats a)) \<noteq> []" using su u(2) by simp
  show "stats a = sqlite_stddev vendor (url_aggregates vendor (now - cutoff) db (s_url (stats a)))"
    using annotate_url_InrD(2)[OF u(3)] su by simp
  show "delay a = delays_get (url_delays (now - cutoff) mirror_id db) (u_id (s_url (stats a)))"
    using annotate_url_InrD(3)[OF u(3)] su by simp
  show "completion_pct a = real (success_count (stats a)) / real (check_count (stats a))"
    using annotate_url_InrD(2,4)[OF u(3)] by simp
qed

lemma url_aggregates_counts:
  "check_count (sqlite_stddev vendor (url_aggregates vendor ct db u)) = length (window_logs ct db u)"
  "success_count (sqlite_stddev vendor (url_aggregates vendor ct db u)) =
     length (filter (\<lambda>l. l_duration l \<noteq> None) (window_logs ct db u))"
  by (simp_all add: sqlite_stddev_def url_aggregates_def Let_def non_null_map_filter)

subsection \<open>Lookup in \<open>url_delays\<close>\<close>

lemma group_by_keys: "map fst (group_by key rows) = remdups (map key rows)"
  by (simp add: group_by_def comp_def)

lemma map_of_group_by:
  "map_of (rev (map (\<lambda>(k, g). (k, f g)) (group_by key rows))) k =
     (if k \<in> key ` set rows then Some (f (filter (\<lambda>r. key r = k) rows)) else None)"
proof -
  let ?xs = "rev (map (\<lambda>(k, g). (k, f g)) (group_by key rows))"
  have fst: "map fst ?xs = rev (remdups (map key rows))"
    by (simp add: group_by_def rev_map comp_def)
  have dist: "distinct (map fst ?xs)" by (simp add: fst)
  show ?thesis
  proof (cases "k \<in> key ` set rows")
    case True
    then have "(k, f (filter (\<lambda>r. key r = k) rows)) \<in> set ?xs"
      by (auto simp: group_by_def)
    with dist have "map_of ?xs k = Some (f (filter (\<lambda>r. key r = k) rows))"
      by (simp only: map_of_eq_Some_iff)
    with True show ?thesis by simp
  next
    case False
    then have "k \<notin> fst ` set ?xs"
      using fst by (metis image_set set_remdups set_rev)
    then have "map_of ?xs k = None" by (simp add: map_of_eq_None_iff)
    with False show ?thesis by simp
  qed
qed

lemma url_delays_lookup:
  "delays_get (url_delays ct mirror_id db) k =
     sql_avg_interval (map sync_delay (filter (\<lambda>l. l_url_id l = k) (delay_rows ct mirror_id db)))"
proof -
  have "url_delays ct mirror_id db k =
      (if k \<in> l_url_id ` set (delay_rows ct mirror_id db)
       then Some (sql_avg_interval (map sync_delay (filter (\<lambda>l. l_url_id l = k) (delay_rows ct mirror_id db))))
       else None)"
    unfolding url_delays_def
    by (rule map_of_group_by[where f = "\<lambda>g. sql_avg_interval (map sync_delay g)"])
  moreover have "filter (\<lambda>l. l_url_id l = k) (delay_rows ct mirror_id db) = []"
    if "k \<notin> l_url_id ` set (delay_rows ct mirror_id db)"
    using that by (auto simp: filter_empty_conv)
  ultimately show ?thesis
    by (auto simp: delays_get_def sql_avg_interval_def)
qed

lemma gms_delay_None:
  assumes "get_mirror_statuses vendor now cutoff mirror_id db = Inr r"
    and "a \<in> set (ms_urls r)"
  shows "delay a = None \<longleftrightarrow>
    filter (\<lambda>l. l_url_id l = u_id (s_url (stats a))) (delay_rows (now - cutoff) mirror_id db) = []"
  by (simp add: gms_output_stats(4)[OF assms] url_delays_lookup sql_avg_interval_def)

lemma gms_score_None:
  assumes "get_mirror_statuses vendor now cutoff mirror_id db = Inr r"
    and "a \<in> set (ms_urls r)"
  shows "score a = None \<longleftrightarrow> delay a = None"
proof -
  from gms_output[OF assms] obtain st dl where an: "annotate_url st dl = Inr a" by blast
  then show ?thesis
    by (auto simp: annotate_url_def Let_def split: if_splits option.splits)
qed

lemma sql_avg_Some: "sql_avg xs = Some v \<Longrightarrow> xs \<noteq> []"
  by (auto simp: sql_avg_def split: if_splits)

lemma gms_delay_Some:
  assumes "get_mirror_statuses vendor now cutoff mirror_id db = Inr r"
    and "a \<in> set (ms_urls r)" and "delay a = Some d"
  shows "\<exists>avg sd. duration_avg (stats a) = Some avg \<and> duration_stddev (stats a) = Some sd \<and>
           score a = Some ((delay_hours d + avg + sd) / completion_pct a) \<and>
           0 < completion_pct a"
proof -
  note st = gms_output_stats[OF assms(1,2)]
  from gms_output[OF assms(1,2)] obtain st0 dl where an: "annotate_url st0 dl = Inr a"
    by blast
  from annotate_url_InrD(2,3)[OF an] assms(3) have eq: "stats a = st0" "dl = Some d"
    by simp_all
  from annotate_url_score_Some[of st0 d a] an eq obtain avg sd where
    sc: "duration_avg (stats a) = Some avg" "duration_stddev (stats a) = Some sd"
      "score a = Some ((delay_hours d + avg + sd) / divisor (completion_pct a))"
    by auto
  have "duration_avg (stats a) =
      sql_avg (non_null (map l_duration (window_logs (now - cutoff) db (s_url (stats a)))))"
    by (subst st(3)) (simp add: sqlite_stddev_def url_aggregates_def Let_def)
  with sc(1) have ne: "non_null (map l_duration (window_logs (now - cutoff) db (s_url (stats a)))) \<noteq> []"
    by (auto dest: sql_avg_Some)
  have "success_count (stats a) =
      length (non_null (map l_duration (window_logs (now - cutoff) db (s_url (stats a)))))"
    by (subst st(3)) (simp add: sqlite_stddev_def url_aggregates_def Let_def)
  with ne have sp: "0 < success_count (stats a)" by simp
  have "check_count (stats a) = length (window_logs (now - cutoff) db (s_url (stats a)))"
    by (subst st(3)) (simp add: url_aggregates_counts)
  with st(2) have "0 < check_count (stats a)" by simp
  with sp st(5) have "0 < completion_pct a" by simp
  with sc show ?thesis by (simp add: divisor_def)
qed

subsection \<open>The summary\<close>





lemma filter_delay_rows:
  "filter (\<lambda>l. l_url_id l = k) (delay_rows ct mirror_id db) =
     filter (\<lambda>l. l_is_success l \<and> ct \<le> l_check_time l \<and> l_last_sync l \<noteq> None \<and>
                 (case mirror_id of None \<Rightarrow> True
                  | Some m \<Rightarrow> (case url_of db l of None \<Rightarrow> False
                               | Some u \<Rightarrow> u_mirror_id u = m)) \<and>
                 l_url_id l = k) (logs db)"
  by (cases mirror_id) (auto simp: delay_rows_def is_not_null_def intro!: filter_cong split: option.splits)

subsection \<open>The download URL\<close>

lemma non_null_all_None: "(\<forall>x \<in> set xs. x = None) \<Longrightarrow> non_null xs = []"
  by (induction xs rule: non_null.induct) simp_all

lemma find_SomeD: "find P xs = Some x \<Longrightarrow> x \<in> set xs \<and> P x"
  by (induction xs) (auto split: if_splits)

lemma fallback_url_find:
  "fallback_url db =
     (case find (\<lambda>u. u_country u = []) (filter (public_active_default db) (urls db)) of
        Some u \<Rightarrow> Some u
      | None \<Rightarrow> find (\<lambda>u. True) (filter (public_active_default db) (urls db)))"
proof -
  have t1: "take 1 xs = (case xs of [] \<Rightarrow> [] | x # _ \<Rightarrow> [x])" for xs :: "MirrorUrl list"
    by (cases xs) simp_all
  have f: "find P xs = (case filter P xs of [] \<Rightarrow> None | x # _ \<Rightarrow> Some x)"
    for P and xs :: "MirrorUrl list"
    by (induction xs) simp_all
  show ?thesis
    unfolding fallback_url_def Let_def f t1
    by (auto split: list.splits)
qed

lemma no_window_fallback:
  assumes "\<forall>l \<in> set (logs db). \<not> now - cutoff \<le> l_check_time l"
  shows "get_mirror_url_for_download nulls_first now cutoff db = Inr (fallback_url db)"
proof -
  from assms have "filter (\<lambda>l. now - cutoff \<le> l_check_time l) (logs db) = []"
    by (auto simp: filter_empty_conv)
  then show ?thesis
    by (simp add: get_mirror_url_for_download_def status_data_def sql_max_def Let_def)
qed

subsection \<open>The first row of an ordered query\<close>

lemma take1_sort_key:
  assumes "xs \<noteq> []"
  shows "\<exists>b. take 1 (sort_key f xs) = [b] \<and> b \<in> set xs \<and> (\<forall>x \<in> set xs. f b \<le> f x)"
proof -
  from assms have "sort_key f xs \<noteq> []" by (metis length_sort length_0_conv)
  then obtain b rest where br: "sort_key f xs = b # rest" by (cases "sort_key f xs") auto
  have "sorted (map f (sort_key f xs))" by simp
  with br have "\<forall>x \<in> set rest. f b \<le> f x" by simp
  moreover have "set (b # rest) = set xs" using br by (metis set_sort)
  ultimately have "b \<in> set xs" "\<forall>x \<in> set xs. f b \<le> f x" by auto
  with br show ?thesis by simp
qed

lemma fresh_logs_iff:
  "l \<in> set (fresh_logs mc ms db) \<longleftrightarrow>
     l \<in> set (logs db) \<and> l_is_success l \<and> mc \<le> l_check_time l \<and>
     (\<exists>s. l_last_sync l = Some s \<and> ms \<le> s) \<and>
     (\<exists>u. url_of db l = Some u \<and> public_active_default db u)"
  by (auto simp: fresh_logs_def split: option.splits)

lemma duration_key_le:
  "duration_key nf b \<le> duration_key nf c \<Longrightarrow> l_duration b = Some x \<Longrightarrow>
     l_duration c = Some y \<Longrightarrow> x \<le> y"
  by (auto simp: duration_key_def less_eq_prod_def split: if_splits)

lemma download_cases:
  assumes "status_data (now - cutoff) db = (Some T, Some S)"
  shows "get_mirror_url_for_download nulls_first now cutoff db =
     (case take 1 (sort_key (duration_key nulls_first)
                     (fresh_logs (T - minutes 5) (S - minutes 20) db)) of
        b # _ \<Rightarrow> (case url_of db b of None \<Rightarrow> Inl DoesNotExist | Some u \<Rightarrow> Inr (Some u))
      | [] \<Rightarrow> Inr (fallback_url db))"
  using assms by (simp add: get_mirror_url_for_download_def Let_def)

subsection \<open>The rows of \<open>get_mirror_errors\<close>\<close>

lemma error_logs_iff:
  "(l, u, m, p) \<in> set (error_logs ct db) \<longleftrightarrow>
     l \<in> set (logs db) \<and> \<not> l_is_success l \<and> ct \<le> l_check_time l \<and>
     url_of db l = Some u \<and> mirror_of db u = Some m \<and> protocol_of db u = Some p \<and>
     m_active m \<and> m_public m"
  by (auto simp: error_logs_def split: option.splits if_splits)












section \<open>The score of a URL\<close>

text \<open>
  C1. For every URL in the result of \<open>get_mirror_statuses\<close> that has a delay, the score
  is the sum of the delay in hours (\<open>delay_hours\<close>, the hours of \<open>annotate_url\<close>), the
  average duration and the standard deviation of the duration, divided by the
  completion percentage when that is positive and by 0.005 when it is zero; the divisor
  is never zero. The second half states the same of \<open>annotate_url\<close> itself, for any URL
  with a check, an average and a deviation: there the completion percentage can be zero.
  (In the result of \<open>get_mirror_statuses\<close> it cannot, for a URL with a delay: without a
  timed log the average is null, and adding it to the hours raises.)
\<close>

theorem score_formula:
  "(get_mirror_statuses vendor now cutoff mirror_id db = Inr r \<and> a \<in> set (ms_urls r) \<and>
    delay a = Some d \<longrightarrow>
      (\<exists>avg sd. duration_avg (stats a) = Some avg \<and> duration_stddev (stats a) = Some sd \<and>
         score a = Some ((delay_hours d + avg + sd) /
                    (if completion_pct a > 0 then completion_pct a else 0.005)) \<and>
         (if completion_pct a > 0 then completion_pct a else 0.005) \<noteq> 0)) \<and>
   (check_count url \<noteq> 0 \<and> duration_avg url = Some avg' \<and> duration_stddev url = Some sd' \<longrightarrow>
      (\<exists>a'. annotate_url url (Some d') = Inr a' \<and>
         completion_pct a' = real (success_count url) / real (check_count url) \<and>
         score a' = Some ((delay_hours d' + avg' + sd') /
                    (if completion_pct a' > 0 then completion_pct a' else 0.005)) \<and>
         (if completion_pct a' > 0 then completion_pct a' else 0.005) \<noteq> 0))"
proof (intro conjI impI)
  assume h: "get_mirror_statuses vendor now cutoff mirror_id db = Inr r \<and> a \<in> set (ms_urls r) \<and>
    delay a = Some d"
  then have 1: "get_mirror_statuses vendor now cutoff mirror_id db = Inr r"
    and 2: "a \<in> set (ms_urls r)" and 3: "delay a = Some d" by simp_all
  from gms_output[OF 1 2] obtain st dl where an: "annotate_url st dl = Inr a"
    by blast
  from annotate_url_InrD(2,3)[OF an] 3 have "stats a = st" "dl = Some d" by simp_all
  with annotate_url_score_Some[of st d a] an
  show "\<exists>avg sd. duration_avg (stats a) = Some avg \<and> duration_stddev (stats a) = Some sd \<and>
         score a = Some ((delay_hours d + avg + sd) /
                    (if completion_pct a > 0 then completion_pct a else 0.005)) \<and>
         (if completion_pct a > 0 then completion_pct a else 0.005) \<noteq> 0"
    by (auto simp: divisor_def)
next
  assume "check_count url \<noteq> 0 \<and> duration_avg url = Some avg' \<and> duration_stddev url = Some sd'"
  then show "\<exists>a'. annotate_url url (Some d') = Inr a' \<and>
         completion_pct a' = real (success_count url) / real (check_count url) \<and>
         score a' = Some ((delay_hours d' + avg' + sd') /
                    (if completion_pct a' > 0 then completion_pct a' else 0.005)) \<and>
         (if completion_pct a' > 0 then completion_pct a' else 0.005) \<noteq> 0"
    by (auto simp: annotate_url_def divisor_def Let_def zero_less_divide_iff)
qed

theorem score_formula_witness:
  "get_mirror_statuses ''postgresql'' (hours_td 102) DEFAULT_CUTOFF None (ex_db healthy_logs)
     = Inr healthy_statuses \<and>
   healthy_annotated \<in> set (ms_urls healthy_statuses) \<and>
   delay healthy_annotated = Some (minutes 90) \<and>
   score healthy_annotated = Some ((delay_hours (minutes 90) + 0.5 + 0) / 1) \<and>
   check_count zero_stats \<noteq> 0 \<and>
   (\<exists>a'. annotate_url zero_stats (Some (minutes 90)) = Inr a' \<and> completion_pct a' = 0 \<and>
      score a' = Some ((delay_hours (minutes 90) + 0.5 + 0) / 0.005))"
proof -
  have m: "healthy_annotated \<in> set (ms_urls healthy_statuses)"
    by (simp add: healthy_statuses_def)
  have d: "delay healthy_annotated = Some (minutes 90)"
    by (simp add: healthy_annotated_def)
  have z: "check_count zero_stats \<noteq> 0 \<and> duration_avg zero_stats = Some 0.5 \<and>
      duration_stddev zero_stats = Some 0"
    by (simp add: zero_stats_def)
  note T = score_formula[of "''postgresql''" "hours_td 102" DEFAULT_CUTOFF None
      "ex_db healthy_logs" healthy_statuses healthy_annotated "minutes 90"
      zero_stats "0.5" 0 "minutes 90"]
  from T healthy_eval m d have
    "\<exists>avg sd. duration_avg (stats healthy_annotated) = Some avg \<and>
       duration_stddev (stats healthy_annotated) = Some sd \<and>
       score healthy_annotated = Some ((delay_hours (minutes 90) + avg + sd) /
         (if completion_pct healthy_annotated > 0 then completion_pct healthy_annotated
          else 0.005))"
    by blast
  then have s1: "score healthy_annotated = Some ((delay_hours (minutes 90) + 0.5 + 0) / 1)"
    by (auto simp: healthy_annotated_def)
  from T z obtain a' where a': "annotate_url zero_stats (Some (minutes 90)) = Inr a'"
    "completion_pct a' = real (success_count zero_stats) / real (check_count zero_stats)"
    "score a' = Some ((delay_hours (minutes 90) + 0.5 + 0) /
                    (if completion_pct a' > 0 then completion_pct a' else 0.005))"
    by blast
  from a'(2) have p0: "completion_pct a' = 0" by (simp add: zero_stats_def)
  with a'(3) have "score a' = Some ((delay_hours (minutes 90) + 0.5 + 0) / 0.005)" by simp
  with a'(1) p0 healthy_eval m d s1 z show ?thesis by blast
qed

section \<open>The completion percentage\<close>




section \<open>Null, sign and monotonicity of the score\<close>

text \<open>
  C3, as the claim states it, fails: the sum of the delay hours, the average duration
  and its standard deviation can be negative (a last sync later than the check), and
  then the score is negative.
\<close>

theorem score_negative_counterexample:
  "get_mirror_statuses ''postgresql'' (hours_td 102) DEFAULT_CUTOFF None (ex_db skewed_logs)
     = Inr skewed_statuses \<and>
   skewed_annotated \<in> set (ms_urls skewed_statuses) \<and>
   delay skewed_annotated = Some (hours_td (- 2)) \<and>
   score skewed_annotated = Some (- 1.5) \<and>
   \<not> (\<exists>s. score skewed_annotated = Some s \<and> 0 < s)"
  using skewed_eval by (simp add: skewed_statuses_def skewed_annotated_def)

text \<open>
  C3, amended. For every URL of the result the score is null exactly when the URL has
  no row among the delay samples. When it has a delay and the sum of delay hours,
  average duration and standard deviation is positive, the score is positive, and a
  returned URL with the same delay, average and deviation and a larger completion
  percentage has a strictly smaller score.
\<close>

theorem score_null_positive_monotone:
  assumes "get_mirror_statuses vendor now cutoff mirror_id db = Inr r"
    and "a \<in> set (ms_urls r)"
    and "get_mirror_statuses vendor' now' cutoff' mirror_id' db' = Inr r'"
    and "a' \<in> set (ms_urls r')"
  shows "(score a = None \<longleftrightarrow>
            filter (\<lambda>l. l_url_id l = u_id (s_url (stats a)))
              (delay_rows (now - cutoff) mirror_id db) = []) \<and>
         (\<forall>d avg sd. delay a = Some d \<and> duration_avg (stats a) = Some avg \<and>
            duration_stddev (stats a) = Some sd \<and> 0 < delay_hours d + avg + sd \<longrightarrow>
            (\<exists>s. score a = Some s \<and> 0 < s \<and>
               (delay a' = Some d \<and> duration_avg (stats a') = Some avg \<and>
                duration_stddev (stats a') = Some sd \<and>
                completion_pct a < completion_pct a' \<longrightarrow>
                (\<exists>s'. score a' = Some s' \<and> s' < s))))"
proof (intro conjI allI impI)
  show "score a = None \<longleftrightarrow>
      filter (\<lambda>l. l_url_id l = u_id (s_url (stats a))) (delay_rows (now - cutoff) mirror_id db) = []"
    using gms_score_None[OF assms(1,2)] gms_delay_None[OF assms(1,2)] by simp
next
  fix d avg sd
  assume h: "delay a = Some d \<and> duration_avg (stats a) = Some avg \<and>
            duration_stddev (stats a) = Some sd \<and> 0 < delay_hours d + avg + sd"
  from gms_delay_Some[OF assms(1,2), of d] h have
    sc: "score a = Some ((delay_hours d + avg + sd) / completion_pct a)"
    and pos: "0 < completion_pct a" by auto
  let ?s = "(delay_hours d + avg + sd) / completion_pct a"
  have spos: "0 < ?s" using h pos by simp
  have mono: "\<exists>s'. score a' = Some s' \<and> s' < ?s"
    if h': "delay a' = Some d \<and> duration_avg (stats a') = Some avg \<and>
                duration_stddev (stats a') = Some sd \<and>
                completion_pct a < completion_pct a'"
  proof -
    from gms_delay_Some[OF assms(3,4), of d] h' have
      sc': "score a' = Some ((delay_hours d + avg + sd) / completion_pct a')" by auto
    have "(delay_hours d + avg + sd) / completion_pct a' < ?s"
      using h h' pos by (simp add: divide_strict_left_mono)
    with sc' show ?thesis by simp
  qed
  show "\<exists>s. score a = Some s \<and> 0 < s \<and>
               (delay a' = Some d \<and> duration_avg (stats a') = Some avg \<and>
                duration_stddev (stats a') = Some sd \<and>
                completion_pct a < completion_pct a' \<longrightarrow>
                (\<exists>s'. score a' = Some s' \<and> s' < s))"
    using sc spos mono by blast
qed

theorem score_null_positive_monotone_witness:
  "delay degraded_annotated = Some (minutes 90) \<and>
   0 < delay_hours (minutes 90) + 0.5 + 0 \<and>
   completion_pct degraded_annotated < completion_pct healthy_annotated \<and>
   (\<exists>s. score degraded_annotated = Some s \<and> 0 < s \<and>
      (\<exists>s'. score healthy_annotated = Some s' \<and> s' < s))"
proof -
  have m: "degraded_annotated \<in> set (ms_urls degraded_statuses)"
    by (simp add: degraded_statuses_def)
  have m': "healthy_annotated \<in> set (ms_urls healthy_statuses)"
    by (simp add: healthy_statuses_def)
  have num: "0 < delay_hours (minutes 90) + 0.5 + 0"
    by (simp add: delay_hours_def days_def seconds_def minutes_def)
  have h: "delay degraded_annotated = Some (minutes 90) \<and>
      duration_avg (stats degraded_annotated) = Some 0.5 \<and>
      duration_stddev (stats degraded_annotated) = Some 0 \<and>
      0 < delay_hours (minutes 90) + 0.5 + 0"
    using num by (simp add: degraded_annotated_def)
  have h': "delay healthy_annotated = Some (minutes 90) \<and>
      duration_avg (stats healthy_annotated) = Some 0.5 \<and>
      duration_stddev (stats healthy_annotated) = Some 0 \<and>
      completion_pct degraded_annotated < completion_pct healthy_annotated"
    by (simp add: degraded_annotated_def healthy_annotated_def)
  from score_null_positive_monotone[OF degraded_eval m healthy_eval m'] h
  obtain s where s: "score degraded_annotated = Some s" "0 < s"
    "delay healthy_annotated = Some (minutes 90) \<and>
      duration_avg (stats healthy_annotated) = Some 0.5 \<and>
      duration_stddev (stats healthy_annotated) = Some 0 \<and>
      completion_pct degraded_annotated < completion_pct healthy_annotated \<longrightarrow>
      (\<exists>s'. score healthy_annotated = Some s' \<and> s' < s)"
    by blast
  from s(3) h' have "\<exists>s'. score healthy_annotated = Some s' \<and> s' < s" by blast
  with s(1,2) h h' show ?thesis by blast
qed

section \<open>The check frequency\<close>



section \<open>The delay of a URL\<close>

text \<open>
  C7, as the claim states it, fails: \<open>url_delays\<close> does not ask for a duration. A
  successful log without a duration counts as a sample; here the delay of the returned
  URL is two hours, the mean over the timed logs one hour.
\<close>

theorem delay_untimed_counterexample:
  "get_mirror_statuses ''postgresql'' (hours_td 102) DEFAULT_CUTOFF None (ex_db untimed_logs)
     = Inr untimed_statuses \<and>
   map delay (ms_urls untimed_statuses) = [Some (hours_td 2)] \<and>
   sql_avg_interval (map sync_delay
     (claimed_delay_samples (hours_td 102 - DEFAULT_CUTOFF) (ex_db untimed_logs) 10))
     = Some (hours_td 1)"
  using untimed_eval
  by (simp add: untimed_statuses_def untimed_annotated_def claimed_delay_samples_def
      untimed_logs_def ex_db_def ex_log_def is_not_null_def sql_avg_interval_def
      sync_delay_def hours_td_def DEFAULT_CUTOFF_def)

text \<open>
  C7, amended. The delay of every returned URL is the mean of \<open>check_time - last_sync\<close>
  (in whole microseconds) over exactly the logs of that URL that are successful, are
  checked at or after the cutoff time and have a last sync, whether or not they have a
  duration; when a mirror is given, only logs whose URL belongs to it. It is null when
  there is no such log.
\<close>

theorem delay_is_mean_of_samples:
  assumes "get_mirror_statuses vendor now cutoff mirror_id db = Inr r"
    and "a \<in> set (ms_urls r)"
  shows "delay a =
     (let samples =
        filter (\<lambda>l. l_is_success l \<and> now - cutoff \<le> l_check_time l \<and> l_last_sync l \<noteq> None \<and>
                  (case mirror_id of None \<Rightarrow> True
                   | Some m \<Rightarrow> (case url_of db l of None \<Rightarrow> False
                                | Some u \<Rightarrow> u_mirror_id u = m)) \<and>
                  l_url_id l = u_id (s_url (stats a))) (logs db)
      in if samples = [] then None
         else Some (sum_list (map (\<lambda>l. l_check_time l - the (l_last_sync l)) samples)
                    div int (length samples)))"
proof -
  have "delay a = sql_avg_interval (map sync_delay
      (filter (\<lambda>l. l_url_id l = u_id (s_url (stats a))) (delay_rows (now - cutoff) mirror_id db)))"
    by (simp add: gms_output_stats(4)[OF assms] url_delays_lookup)
  then show ?thesis
    unfolding filter_delay_rows sql_avg_interval_def Let_def
    by (simp add: sync_delay_def[abs_def])
qed

theorem delay_is_mean_of_samples_witness:
  "untimed_annotated \<in> set (ms_urls untimed_statuses) \<and>
   delay untimed_annotated = Some (hours_td 2) \<and>
   delay untimed_annotated =
     Some ((hours_td 100 - hours_td 99 + (hours_td 101 - hours_td 98)) div 2)"
proof -
  have m: "untimed_annotated \<in> set (ms_urls untimed_statuses)"
    by (simp add: untimed_statuses_def)
  from delay_is_mean_of_samples[OF untimed_eval m] m show ?thesis
    by (simp add: untimed_annotated_def untimed_logs_def ex_db_def ex_log_def ex_url_def
        hours_td_def DEFAULT_CUTOFF_def)
qed

section \<open>The mirror filter of \<open>get_mirror_errors\<close>\<close>

text \<open>
  C9, as the claim states it, fails for the non-null \<open>mirror_id = 0\<close>: the test
  \<^verbatim>\<open>if mirror_id:\<close> is false for zero, the branch that reads the unassigned \<open>urls\<close> is
  skipped, and the function returns the rows.
\<close>

theorem mirror_id_zero_counterexample:
  "get_mirror_errors (hours_td 102) DEFAULT_CUTOFF (Some 0) (ex_db error_logs_example) =
     Inr [ex_error_row ''timed out'' 2 (hours_td 101),
          ex_error_row ''404'' 1 (hours_td 100 + minutes 30)] \<and>
   get_mirror_errors (hours_td 102) DEFAULT_CUTOFF (Some 0) (ex_db error_logs_example) \<noteq>
     Inl NameError"
  using errors_eval0 by simp

text \<open>
  C9, amended. For every call with a \<open>mirror_id\<close> that is neither null nor zero the
  function raises the name error before it returns. With \<open>mirror_id\<close> zero it returns
  what it returns without a \<open>mirror_id\<close>: the rows of all mirrors, so that the filter by
  mirror is never applied.
\<close>

theorem mirror_filter_name_error:
  "(mirror_id \<noteq> None \<and> mirror_id \<noteq> Some 0 \<longrightarrow>
      get_mirror_errors now cutoff mirror_id db = Inl NameError) \<and>
   (mirror_id = Some 0 \<longrightarrow>
      get_mirror_errors now cutoff mirror_id db = get_mirror_errors now cutoff None db \<and>
      (\<exists>rows. get_mirror_errors now cutoff mirror_id db = Inr rows))"
  by (cases mirror_id) (auto simp: get_mirror_errors_def truthy_def Let_def)

theorem mirror_filter_name_error_witness:
  "get_mirror_errors (hours_td 102) DEFAULT_CUTOFF (Some 1) (ex_db error_logs_example) =
     Inl NameError \<and>
   get_mirror_errors (hours_td 102) DEFAULT_CUTOFF (Some 0) (ex_db error_logs_example) =
     get_mirror_errors (hours_td 102) DEFAULT_CUTOFF None (ex_db error_logs_example)"
  using mirror_filter_name_error[of "Some 1" "hours_td 102" DEFAULT_CUTOFF "ex_db error_logs_example"]
    mirror_filter_name_error[of "Some 0" "hours_td 102" DEFAULT_CUTOFF "ex_db error_logs_example"]
  by simp

section \<open>No last sync in the window\<close>

text \<open>
  C10. If some log is at or after the cutoff time and every such log has a null last
  sync, \<open>get_mirror_url_for_download\<close> raises a type error: the greatest check time is
  not null, the greatest last sync is, and twenty minutes are subtracted from it.
\<close>

theorem null_last_sync_type_error:
  assumes "\<exists>l \<in> set (logs db). now - cutoff \<le> l_check_time l"
    and "\<forall>l \<in> set (logs db). now - cutoff \<le> l_check_time l \<longrightarrow> l_last_sync l = None"
  shows "get_mirror_url_for_download nulls_first now cutoff db = Inl TypeError"
proof -
  let ?window = "filter (\<lambda>l. now - cutoff \<le> l_check_time l) (logs db)"
  from assms(1) have ne: "?window \<noteq> []" by (auto simp: filter_empty_conv)
  from assms(2) have "non_null (map l_last_sync ?window) = []"
    by (intro non_null_all_None) auto
  with ne show ?thesis
    by (simp add: get_mirror_url_for_download_def status_data_def sql_max_def Let_def)
qed

theorem null_last_sync_type_error_witness:
  "(\<exists>l \<in> set (logs (ex_db failed_logs)). hours_td 102 - DEFAULT_CUTOFF \<le> l_check_time l) \<and>
   get_mirror_url_for_download False (hours_td 102) DEFAULT_CUTOFF (ex_db failed_logs)
     = Inl TypeError"
proof -
  have 1: "\<exists>l \<in> set (logs (ex_db failed_logs)). hours_td 102 - DEFAULT_CUTOFF \<le> l_check_time l"
    by (simp add: ex_db_def failed_logs_def ex_log_def hours_td_def DEFAULT_CUTOFF_def)
  have 2: "\<forall>l \<in> set (logs (ex_db failed_logs)).
      hours_td 102 - DEFAULT_CUTOFF \<le> l_check_time l \<longrightarrow> l_last_sync l = None"
    by (simp add: ex_db_def failed_logs_def ex_log_def)
  from null_last_sync_type_error[OF 1 2] 1 show ?thesis by blast
qed

section \<open>The fallback without status data\<close>

text \<open>
  C5. When no log is at or after the cutoff time, \<open>get_mirror_url_for_download\<close> returns
  a URL of a public, active mirror on a default protocol that has an empty country, if
  there is one; otherwise any URL of a public, active mirror on a default protocol;
  otherwise null.
\<close>

theorem fallback_without_logs:
  assumes "\<forall>l \<in> set (logs db). \<not> now - cutoff \<le> l_check_time l"
  shows
    "((\<exists>u \<in> set (urls db). public_active_default db u \<and> u_country u = []) \<longrightarrow>
        (\<exists>u \<in> set (urls db). public_active_default db u \<and> u_country u = [] \<and>
           get_mirror_url_for_download nulls_first now cutoff db = Inr (Some u))) \<and>
     (\<not> (\<exists>u \<in> set (urls db). public_active_default db u \<and> u_country u = []) \<and>
      (\<exists>u \<in> set (urls db). public_active_default db u) \<longrightarrow>
        (\<exists>u \<in> set (urls db). public_active_default db u \<and>
           get_mirror_url_for_download nulls_first now cutoff db = Inr (Some u))) \<and>
     (\<not> (\<exists>u \<in> set (urls db). public_active_default db u) \<longrightarrow>
        get_mirror_url_for_download nulls_first now cutoff db = Inr None)"
proof -
  let ?C = "filter (public_active_default db) (urls db)"
  note r = no_window_fallback[OF assms, of nulls_first]
  have a: "\<exists>u \<in> set (urls db). public_active_default db u \<and> u_country u = [] \<and>
             fallback_url db = Some u"
    if "\<exists>u \<in> set (urls db). public_active_default db u \<and> u_country u = []"
  proof -
    from that have "\<exists>u \<in> set ?C. u_country u = []" by auto
    then obtain u where u: "find (\<lambda>u. u_country u = []) ?C = Some u"
      by (cases "find (\<lambda>u. u_country u = []) ?C") (auto simp: find_None_iff)
    then have "u \<in> set ?C" "u_country u = []"
      by (auto dest: find_SomeD)
    with u show ?thesis by (auto simp: fallback_url_find)
  qed
  have b: "\<exists>u \<in> set (urls db). public_active_default db u \<and> fallback_url db = Some u"
    if "\<not> (\<exists>u \<in> set (urls db). public_active_default db u \<and> u_country u = [])"
      and "\<exists>u \<in> set (urls db). public_active_default db u"
  proof -
    from that(1) have n: "find (\<lambda>u. u_country u = []) ?C = None"
      by (auto simp: find_None_iff)
    from that(2) obtain u where u: "find (\<lambda>u. True) ?C = Some u"
      by (cases "find (\<lambda>u. True) ?C") (auto simp: find_None_iff)
    then have "u \<in> set ?C" by (auto dest: find_SomeD)
    with u n show ?thesis by (auto simp: fallback_url_find)
  qed
  have c: "fallback_url db = None" if "\<not> (\<exists>u \<in> set (urls db). public_active_default db u)"
  proof -
    from that have "?C = []" by (auto simp: filter_empty_conv)
    then show ?thesis by (simp add: fallback_url_find)
  qed
  from a b c show ?thesis unfolding r by blast
qed

theorem fallback_without_logs_witness:
  "get_mirror_url_for_download False (hours_td 102) DEFAULT_CUTOFF two_url_db
     = Inr (Some ex_url_global) \<and>
   public_active_default two_url_db ex_url_global \<and> u_country ex_url_global = [] \<and>
   get_mirror_url_for_download False (hours_td 102) DEFAULT_CUTOFF (ex_db [])
     = Inr (Some ex_url) \<and>
   public_active_default (ex_db []) ex_url \<and>
   get_mirror_url_for_download False (hours_td 102) DEFAULT_CUTOFF empty_db = Inr None"
proof -
  have pad: "public_active_default two_url_db ex_url_global"
    "public_active_default two_url_db ex_url"
    "public_active_default (ex_db []) ex_url"
    by (simp_all add: public_active_default_def mirror_of_def protocol_of_def two_url_db_def
        ex_db_def ex_url_def ex_url_global_def ex_mirror_def ex_http_def)
  have c: "u_country ex_url_global = []" "u_country ex_url \<noteq> []"
    by (simp_all add: ex_url_global_def ex_url_def)
  have l1: "\<forall>l \<in> set (logs two_url_db). \<not> hours_td 102 - DEFAULT_CUTOFF \<le> l_check_time l"
    by (simp add: two_url_db_def)
  have l2: "\<forall>l \<in> set (logs (ex_db [])). \<not> hours_td 102 - DEFAULT_CUTOFF \<le> l_check_time l"
    by (simp add: ex_db_def)
  have l3: "\<forall>l \<in> set (logs empty_db). \<not> hours_td 102 - DEFAULT_CUTOFF \<le> l_check_time l"
    by (simp add: empty_db_def)
  have u1: "urls two_url_db = [ex_url, ex_url_global]" by (simp add: two_url_db_def)
  have u2: "urls (ex_db []) = [ex_url]" by (simp add: ex_db_def)
  have u3: "urls empty_db = []" by (simp add: empty_db_def)
  from fallback_without_logs[OF l1, of False] pad c
  have r1: "get_mirror_url_for_download False (hours_td 102) DEFAULT_CUTOFF two_url_db
     = Inr (Some ex_url_global)"
    by (simp add: u1)
  from fallback_without_logs[OF l2, of False] pad c
  have r2: "get_mirror_url_for_download False (hours_td 102) DEFAULT_CUTOFF (ex_db [])
     = Inr (Some ex_url)"
    by (simp add: u2)
  from fallback_without_logs[OF l3, of False]
  have r3: "get_mirror_url_for_download False (hours_td 102) DEFAULT_CUTOFF empty_db = Inr None"
    by (simp add: u3)
  from r1 r2 r3 pad c show ?thesis by simp
qed

section \<open>The best URL for downloads\<close>

text \<open>
  C4, as the claim states it, fails: a log in the window does not make the function
  return the URL of a successful log. Here the only log is a failed check; no log is
  successful, and the function returns the URL of the fallback.
\<close>

theorem no_successful_log_counterexample:
  "(\<exists>l \<in> set (logs (ex_db stale_failed_logs)).
      hours_td 102 - DEFAULT_CUTOFF \<le> l_check_time l) \<and>
   filter l_is_success (logs (ex_db stale_failed_logs)) = [] \<and>
   get_mirror_url_for_download False (hours_td 102) DEFAULT_CUTOFF (ex_db stale_failed_logs)
     = Inr (Some ex_url)"
  by (simp add: eval_defs2 stale_failed_logs_def Let_def)

text \<open>
  C4, amended. Let the greatest check time \<open>T\<close> and the greatest last sync \<open>S\<close> of the
  logs in the window both be not null. If some log is successful, checked at or after
  \<open>T\<close> minus five minutes, synced at or after \<open>S\<close> minus twenty minutes and belongs to a
  URL of a public, active mirror on a default protocol (\<open>fresh_logs\<close>), the function
  returns the URL of such a log that comes first in the store's ascending order of
  duration: its duration is at most that of every other such log that has one. The two
  bounds are lower bounds only: such a log may lie before the cutoff time, and its last
  sync may be later than \<open>S\<close>. A log below either bound is never selected, whatever its
  duration. If no log is such, the function returns the selection it makes without
  status data (\<open>fallback_url\<close>).
\<close>

theorem best_url_selected:
  assumes "status_data (now - cutoff) db = (Some T, Some S)"
  shows "(fresh_logs (T - minutes 5) (S - minutes 20) db \<noteq> [] \<longrightarrow>
           (\<exists>b u. b \<in> set (logs db) \<and> l_is_success b \<and>
              T - minutes 5 \<le> l_check_time b \<and>
              (\<exists>s. l_last_sync b = Some s \<and> S - minutes 20 \<le> s) \<and>
              url_of db b = Some u \<and> public_active_default db u \<and>
              get_mirror_url_for_download nulls_first now cutoff db = Inr (Some u) \<and>
              (\<forall>c \<in> set (fresh_logs (T - minutes 5) (S - minutes 20) db).
                 duration_key nulls_first b \<le> duration_key nulls_first c \<and>
                 (\<forall>x y. l_duration b = Some x \<and> l_duration c = Some y \<longrightarrow> x \<le> y)))) \<and>
         (fresh_logs (T - minutes 5) (S - minutes 20) db = [] \<longrightarrow>
            get_mirror_url_for_download nulls_first now cutoff db = Inr (fallback_url db))"
proof (intro conjI impI)
  let ?F = "fresh_logs (T - minutes 5) (S - minutes 20) db"
  assume ne: "?F \<noteq> []"
  from take1_sort_key[OF ne, of "duration_key nulls_first"] obtain b where
    b: "take 1 (sort_key (duration_key nulls_first) ?F) = [b]" "b \<in> set ?F"
      "\<forall>x \<in> set ?F. duration_key nulls_first b \<le> duration_key nulls_first x"
    by blast
  from b(2) obtain u s where
    p: "b \<in> set (logs db)" "l_is_success b" "T - minutes 5 \<le> l_check_time b"
      "l_last_sync b = Some s" "S - minutes 20 \<le> s" "url_of db b = Some u"
      "public_active_default db u"
    unfolding fresh_logs_iff by blast
  have r: "get_mirror_url_for_download nulls_first now cutoff db = Inr (Some u)"
    unfolding download_cases[OF assms(1)] b(1) by (simp add: p(6))
  have m: "\<forall>c \<in> set ?F. duration_key nulls_first b \<le> duration_key nulls_first c \<and>
              (\<forall>x y. l_duration b = Some x \<and> l_duration c = Some y \<longrightarrow> x \<le> y)"
    using b(3) duration_key_le by blast
  from p r m show "\<exists>b u. b \<in> set (logs db) \<and> l_is_success b \<and>
              T - minutes 5 \<le> l_check_time b \<and>
              (\<exists>s. l_last_sync b = Some s \<and> S - minutes 20 \<le> s) \<and>
              url_of db b = Some u \<and> public_active_default db u \<and>
              get_mirror_url_for_download nulls_first now cutoff db = Inr (Some u) \<and>
              (\<forall>c \<in> set ?F.
                 duration_key nulls_first b \<le> duration_key nulls_first c \<and>
                 (\<forall>x y. l_duration b = Some x \<and> l_duration c = Some y \<longrightarrow> x \<le> y))"
    by blast
next
  assume "fresh_logs (T - minutes 5) (S - minutes 20) db = []"
  then show "get_mirror_url_for_download nulls_first now cutoff db = Inr (fallback_url db)"
    unfolding download_cases[OF assms(1)] by simp
qed

theorem best_url_selected_witness:
  "status_data (hours_td 102 - DEFAULT_CUTOFF) fresh_db
     = (Some (hours_td 101), Some (hours_td 100 + minutes 55)) \<and>
   fresh_logs (hours_td 101 - minutes 5) (hours_td 100 + minutes 55 - minutes 20) fresh_db \<noteq> [] \<and>
   get_mirror_url_for_download False (hours_td 102) DEFAULT_CUTOFF fresh_db = Inr (Some ex_url) \<and>
   status_data (hours_td 102 - DEFAULT_CUTOFF) (ex_db stale_failed_logs)
     = (Some (hours_td 100), Some (hours_td 99)) \<and>
   fresh_logs (hours_td 100 - minutes 5) (hours_td 99 - minutes 20) (ex_db stale_failed_logs) = [] \<and>
   get_mirror_url_for_download False (hours_td 102) DEFAULT_CUTOFF (ex_db stale_failed_logs)
     = Inr (fallback_url (ex_db stale_failed_logs)) \<and>
   fallback_url (ex_db stale_failed_logs) = Some ex_url \<and>
   status_data (hours_td 102 - DEFAULT_CUTOFF) boundary_db
     = (Some (hours_td 78 + minutes 1), Some (hours_td 77)) \<and>
   get_mirror_url_for_download False (hours_td 102) DEFAULT_CUTOFF boundary_db
     = Inr (Some ex_url_global)"
proof -
  have ne: "fresh_logs (hours_td 101 - minutes 5) (hours_td 100 + minutes 55 - minutes 20)
      fresh_db \<noteq> []"
    by (simp add: fresh_db_fresh_logs)
  from best_url_selected[OF fresh_db_status, of False] ne obtain b u where
    b: "b \<in> set (fresh_logs (hours_td 101 - minutes 5) (hours_td 100 + minutes 55 - minutes 20) fresh_db)"
      "url_of fresh_db b = Some u"
      "get_mirror_url_for_download False (hours_td 102) DEFAULT_CUTOFF fresh_db = Inr (Some u)"
    unfolding fresh_logs_iff by blast
  from b(1) have "l_url_id b = 10"
    unfolding fresh_db_fresh_logs by (auto simp: ex_log_def)
  then have "url_of fresh_db b = Some ex_url"
    by (simp add: url_of_def fresh_db_def ex_url_def ex_url_global_def)
  with b(2) have "u = ex_url" by simp
  with b(3) have r1: "get_mirror_url_for_download False (hours_td 102) DEFAULT_CUTOFF fresh_db
      = Inr (Some ex_url)" by simp
  have r2: "get_mirror_url_for_download False (hours_td 102) DEFAULT_CUTOFF
      (ex_db stale_failed_logs) = Inr (fallback_url (ex_db stale_failed_logs))"
    using best_url_selected[OF stale_failed_status, of False] stale_failed_fresh_logs by blast
  have ne': "fresh_logs (hours_td 78 + minutes 1 - minutes 5) (hours_td 77 - minutes 20)
      boundary_db \<noteq> []"
    by (simp add: boundary_fresh_logs)
  from best_url_selected[OF boundary_status, of False] ne' obtain c v where
    c0: "c \<in> set (logs boundary_db)" "l_is_success c"
      "hours_td 78 + minutes 1 - minutes 5 \<le> l_check_time c"
      "\<exists>s. l_last_sync c = Some s \<and> hours_td 77 - minutes 20 \<le> s"
      "public_active_default boundary_db v" and
    c: "url_of boundary_db c = Some v"
      "get_mirror_url_for_download False (hours_td 102) DEFAULT_CUTOFF boundary_db
         = Inr (Some v)"
      "\<forall>c' \<in> set (fresh_logs (hours_td 78 + minutes 1 - minutes 5) (hours_td 77 - minutes 20)
          boundary_db). duration_key False c \<le> duration_key False c' \<and>
          (\<forall>x y. l_duration c = Some x \<and> l_duration c' = Some y \<longrightarrow> x \<le> y)"
    by blast
  from c0 c(1) have cm: "c \<in> set (fresh_logs (hours_td 78 + minutes 1 - minutes 5)
      (hours_td 77 - minutes 20) boundary_db)"
    unfolding fresh_logs_iff by blast
  let ?L1 = "ex_log (hours_td 78 + minutes 1) (Some (hours_td 77)) (Some 0.5) True []"
  let ?L2 = "(ex_log (hours_td 78 - minutes 1) (Some (hours_td 77 + minutes 50)) (Some 0.1)
      True [])\<lparr>l_url_id := 11\<rparr>"
  from cm have "c = ?L1 \<or> c = ?L2" unfolding boundary_fresh_logs by simp
  moreover have "c \<noteq> ?L1"
  proof
    assume e: "c = ?L1"
    have "?L2 \<in> set (fresh_logs (hours_td 78 + minutes 1 - minutes 5)
        (hours_td 77 - minutes 20) boundary_db)"
      unfolding boundary_fresh_logs by simp
    with c(3) have "\<forall>x y. l_duration c = Some x \<and> l_duration ?L2 = Some y \<longrightarrow> x \<le> y"
      by blast
    then have "l_duration c = Some (1 / 2) \<and> l_duration ?L2 = Some (1 / 10) \<longrightarrow>
        (1 / 2 :: real) \<le> 1 / 10"
      by blast
    with e show False by (simp add: ex_log_def)
  qed
  ultimately have "c = ?L2" by blast
  then have "l_url_id c = 11" by (simp add: ex_log_def)
  then have "url_of boundary_db c = Some ex_url_global"
    by (simp add: url_of_def boundary_db_def ex_url_def ex_url_global_def)
  with c(1,2) have r3: "get_mirror_url_for_download False (hours_td 102) DEFAULT_CUTOFF
      boundary_db = Inr (Some ex_url_global)" by simp
  from r1 r2 r3 fresh_db_status ne stale_failed_status stale_failed_fresh_logs
    stale_failed_fallback boundary_status
  show ?thesis by simp
qed

section \<open>Aggregation of the errors\<close>



end
